theory Spec2Isabelle
  imports Main
begin

section \<open>Package domain: scores, severities and the IP record\<close>

text \<open>
  \<^verbatim>\<open>type IPScore int\<close>. Scores are only compared with constants, never added, so the
  64-bit range of Go's \<^verbatim>\<open>int\<close> plays no role and \<open>int\<close> is exact here.
\<close>

type_synonym IPScore = int

definition ScoreLow :: IPScore where "ScoreLow = 25"
definition ScoreMedium :: IPScore where "ScoreMedium = 75"
definition ScoreHigh :: IPScore where "ScoreHigh = 100"
definition ScoreThreshold :: IPScore where "ScoreThreshold = 75"

datatype Severity = SeverityLow | SeverityMedium | SeverityHigh

text \<open>
  \<^verbatim>\<open>IPInfo.Timestamp\<close> is a \<^verbatim>\<open>time.Time\<close>; the model keeps it as an integer reading
  of a clock (seconds where it comes from the database).
\<close>

record IPInfo =
  Address :: string
  Score :: IPScore
  Country :: string
  Path :: string
  PayloadPath :: string
  BlockedInFW :: bool
  Timestamp :: int

definition IsHighRisk :: "IPInfo \<Rightarrow> bool" where
  "IsHighRisk i = (Score i > ScoreThreshold)"

definition GetSeverity :: "IPInfo \<Rightarrow> Severity" where
  "GetSeverity i =
     (if Score i > ScoreThreshold then SeverityHigh
      else if Score i \<ge> ScoreLow then SeverityMedium
      else SeverityLow)"

fun String :: "Severity \<Rightarrow> string" where
  "String SeverityHigh = ''High''"
| "String SeverityMedium = ''Medium''"
| "String SeverityLow = ''Low''"


section \<open>Package ratelimit: the fixed-window limiter\<close>

text \<open>
  Time values are readings of the process clock in nanoseconds (\<^verbatim>\<open>time.Now()\<close>), durations
  are Go's \<^verbatim>\<open>time.Duration\<close>, an \<^verbatim>\<open>int64\<close> of nanoseconds. \<^verbatim>\<open>Time.Sub\<close> saturates at the
  ends of the \<^verbatim>\<open>int64\<close> range instead of wrapping; \<^verbatim>\<open>v.count++\<close> on an \<^verbatim>\<open>int\<close> wraps.
\<close>

type_synonym Time = int
type_synonym Duration = int

definition minDuration :: Duration where "minDuration = - (2 ^ 63)"
definition maxDuration :: Duration where "maxDuration = 2 ^ 63 - 1"

definition Sub :: "Time \<Rightarrow> Time \<Rightarrow> Duration" where
  "Sub t u =
     (if t - u < minDuration then minDuration
      else if t - u > maxDuration then maxDuration
      else t - u)"

definition int64_wrap :: "int \<Rightarrow> int" where
  "int64_wrap x = (x + 2 ^ 63) mod 2 ^ 64 - 2 ^ 63"

definition Second :: Duration where "Second = 1000000000"
definition Minute :: Duration where "Minute = 60 * Second"

definition DefaultRate :: int where "DefaultRate = 5"
definition DefaultWindow :: Duration where "DefaultWindow = 1 * Minute"
definition CleanupInterval :: Duration where "CleanupInterval = 5 * Minute"

record visitor =
  count :: int
  lastReset :: Time
  lastAccess :: Time

record IPRateLimiter =
  visitors :: "string \<rightharpoonup> visitor"
  rate :: int
  window :: Duration

definition NewIPRateLimiter :: "int \<Rightarrow> Duration \<Rightarrow> IPRateLimiter" where
  "NewIPRateLimiter r w = \<lparr>visitors = Map.empty, rate = r, window = w\<rparr>"

definition NewDefaultIPRateLimiter :: IPRateLimiter where
  "NewDefaultIPRateLimiter = NewIPRateLimiter DefaultRate DefaultWindow"

text \<open>
  \<^verbatim>\<open>Allow\<close> runs under the limiter's mutex, so it is one atomic step on the limiter; the
  reading of \<^verbatim>\<open>time.Now()\<close> is its third argument. The result is the returned boolean and
  the limiter after the call.
\<close>

definition Allow :: "IPRateLimiter \<Rightarrow> string \<Rightarrow> Time \<Rightarrow> bool \<times> IPRateLimiter" where
  "Allow rl ip now =
     (case visitors rl ip of
        None \<Rightarrow>
          (True, rl\<lparr>visitors := (visitors rl)(ip \<mapsto>
                         \<lparr>count = 1, lastReset = now, lastAccess = now\<rparr>)\<rparr>)
      | Some v0 \<Rightarrow>
          (let v = v0\<lparr>lastAccess := now\<rparr> in
           if Sub now (lastReset v) > window rl then
             (True, rl\<lparr>visitors := (visitors rl)(ip \<mapsto> v\<lparr>count := 1, lastReset := now\<rparr>)\<rparr>)
           else
             (let v' = v\<lparr>count := int64_wrap (count v + 1)\<rparr> in
              (count v' \<le> rate rl, rl\<lparr>visitors := (visitors rl)(ip \<mapsto> v')\<rparr>))))"

text \<open>
  \<^verbatim>\<open>cleanup\<close> of the limiter: entries idle for more than twice the window are deleted.
  \<^verbatim>\<open>rl.window*2\<close> is an \<^verbatim>\<open>int64\<close> product and wraps.
\<close>

definition rl_cleanup :: "IPRateLimiter \<Rightarrow> Time \<Rightarrow> IPRateLimiter" where
  "rl_cleanup rl now =
     rl\<lparr>visitors := (\<lambda>ip. case visitors rl ip of
                            None \<Rightarrow> None
                          | Some v \<Rightarrow>
                              if Sub now (lastAccess v) > int64_wrap (window rl * 2) then None
                              else Some v)\<rparr>"

text \<open>A run of \<^verbatim>\<open>Allow\<close> calls, each with its identity and its clock reading.\<close>

fun allow_seq :: "IPRateLimiter \<Rightarrow> (string \<times> Time) list \<Rightarrow> bool list \<times> IPRateLimiter" where
  "allow_seq rl [] = ([], rl)"
| "allow_seq rl ((ip, now) # cs) =
     (case Allow rl ip now of
        (ok, rl') \<Rightarrow> (case allow_seq rl' cs of (oks, rl'') \<Rightarrow> (ok # oks, rl'')))"


section \<open>Package database: the SQLite table of IP records\<close>

text \<open>
  The table \<^verbatim>\<open>ip_info\<close> has \<^verbatim>\<open>address\<close> as its primary key, so it is a map from addresses
  to rows. \<^verbatim>\<open>payload_path\<close> is the only nullable column. The two time columns are written
  with \<^verbatim>\<open>datetime('now')\<close>, which has a resolution of one second: database time is an
  integer number of seconds, and every statement takes the reading of \<^verbatim>\<open>datetime('now')\<close>
  as an argument.
\<close>

record row =
  score :: IPScore
  country :: string
  path :: string
  payload_path :: "string option"
  blocked_in_fw :: bool
  timestamp :: int
  updated_at :: int

text \<open>
  \<open>ttl\<close> is held in whole seconds: it is the value \<^verbatim>\<open>int(db.ttl.Seconds())\<close> that \<^verbatim>\<open>Get\<close>,
  \<^verbatim>\<open>cleanup\<close> and \<^verbatim>\<open>GetStats\<close> bind to their query (3600 for \<^verbatim>\<open>DefaultCacheTTL\<close>, the
  only value the program passes).
\<close>

record IPDatabase =
  ip_info :: "string \<rightharpoonup> row"
  ttl :: int

definition DefaultCacheTTL :: int where "DefaultCacheTTL = 3600"

datatype error = Err string

text \<open>
  \<^verbatim>\<open>Get\<close>: the row of the address, when
  \<^verbatim>\<open>datetime(timestamp, '+ttl seconds') > datetime('now')\<close>. A failing query (the last
  argument) is logged and answered like a miss. The rows are written by \<^verbatim>\<open>Set\<close> with
  \<^verbatim>\<open>datetime('now')\<close>, whose text the second layout of \<^verbatim>\<open>Get\<close> parses, so the parsed time
  is the column's value. The comparison is the one SQLite makes for \<open>ttl \<ge> 0\<close>, which
  covers the program: a negative number would make the modifier \<^verbatim>\<open>'+-N seconds'\<close>, which
  SQLite does not accept.
\<close>

definition Get :: "IPDatabase \<Rightarrow> string \<Rightarrow> int \<Rightarrow> bool \<Rightarrow> IPInfo option" where
  "Get db ip now queryErr =
     (if queryErr then None
      else case ip_info db ip of
             None \<Rightarrow> None
           | Some r \<Rightarrow>
               if timestamp r + ttl db > now then
                 Some \<lparr>Address = ip, Score = score r, Country = country r, Path = path r,
                       PayloadPath = (case payload_path r of None \<Rightarrow> [] | Some p \<Rightarrow> p),
                       BlockedInFW = blocked_in_fw r, Timestamp = timestamp r\<rparr>
               else None)"

text \<open>
  \<^verbatim>\<open>Set\<close>: \<^verbatim>\<open>INSERT ... ON CONFLICT(address) DO UPDATE\<close>. The insert writes both time
  columns; the update assigns score, country, path, payload_path, blocked_in_fw and
  updated_at from the new values and leaves \<^verbatim>\<open>timestamp\<close> alone. An empty
  \<^verbatim>\<open>PayloadPath\<close> is bound as NULL.
\<close>

definition Set :: "IPDatabase \<Rightarrow> IPInfo \<Rightarrow> int \<Rightarrow> bool \<Rightarrow> error option \<times> IPDatabase" where
  "Set db info now execErr =
     (let payloadPath = (if PayloadPath info \<noteq> [] then Some (PayloadPath info) else None) in
      if execErr then (Some (Err ''failed to set IP info''), db)
      else
        (None,
         db\<lparr>ip_info := (ip_info db)(Address info \<mapsto>
              (case ip_info db (Address info) of
                 None \<Rightarrow>
                   \<lparr>score = Score info, country = Country info, path = Path info,
                    payload_path = payloadPath, blocked_in_fw = BlockedInFW info,
                    timestamp = now, updated_at = now\<rparr>
               | Some r \<Rightarrow>
                   r\<lparr>score := Score info, country := Country info, path := Path info,
                     payload_path := payloadPath, blocked_in_fw := BlockedInFW info,
                     updated_at := now\<rparr>))\<rparr>))"

text \<open>\<^verbatim>\<open>MarkBlocked\<close>: \<^verbatim>\<open>UPDATE ip_info SET blocked_in_fw = 1, updated_at = now WHERE address = ?\<close>.\<close>

definition MarkBlocked :: "IPDatabase \<Rightarrow> string \<Rightarrow> int \<Rightarrow> bool \<Rightarrow> error option \<times> IPDatabase" where
  "MarkBlocked db ip now execErr =
     (if execErr then (Some (Err ''failed to mark IP as blocked''), db)
      else
        (None,
         (case ip_info db ip of
            None \<Rightarrow> db
          | Some r \<Rightarrow>
              db\<lparr>ip_info := (ip_info db)(ip \<mapsto> r\<lparr>blocked_in_fw := True, updated_at := now\<rparr>)\<rparr>)))"

text \<open>
  \<^verbatim>\<open>cleanup\<close>: \<^verbatim>\<open>DELETE ... WHERE datetime(timestamp, '+ttl seconds') < datetime('now')\<close>;
  a failing statement is logged and deletes nothing. As for \<^verbatim>\<open>Get\<close>, the comparison is
  the one SQLite makes for \<open>ttl \<ge> 0\<close>.
\<close>

definition cleanup :: "IPDatabase \<Rightarrow> int \<Rightarrow> bool \<Rightarrow> IPDatabase" where
  "cleanup db now execErr =
     (if execErr then db
      else db\<lparr>ip_info := (\<lambda>ip. case ip_info db ip of
                                  None \<Rightarrow> None
                                | Some r \<Rightarrow> if timestamp r + ttl db < now then None else Some r)\<rparr>)"


section \<open>Package cache: the in-memory store\<close>

text \<open>
  \<^verbatim>\<open>IPCache\<close> is the in-memory store with the same operations. Its \<^verbatim>\<open>Set\<close> stamps the
  record with \<^verbatim>\<open>time.Now()\<close> on every call, for a new address and for a known one, and
  its \<^verbatim>\<open>Get\<close> misses when \<^verbatim>\<open>time.Since(entry.Timestamp) > c.ttl\<close>. Times are readings of
  the process clock.
\<close>

record IPCache =
  entries :: "string \<rightharpoonup> IPInfo"
  ttl_cache :: Duration

definition IPCache_Get :: "IPCache \<Rightarrow> string \<Rightarrow> Time \<Rightarrow> IPInfo option" where
  "IPCache_Get c ip now =
     (case entries c ip of
        None \<Rightarrow> None
      | Some entry \<Rightarrow> if Sub now (Timestamp entry) > ttl_cache c then None else Some entry)"

definition IPCache_Set :: "IPCache \<Rightarrow> IPInfo \<Rightarrow> Time \<Rightarrow> IPCache" where
  "IPCache_Set c info now = c\<lparr>entries := (entries c)(Address info \<mapsto> info\<lparr>Timestamp := now\<rparr>)\<rparr>"


section \<open>Package config and the GateKeeper value\<close>

text \<open>
  The fields of \<^verbatim>\<open>Configuration\<close> that the request path reads. The Telegram
  configurations and the UniFi clients only matter by their number: each notifier and each
  client is addressed by its index.
\<close>

record Configuration =
  RateLimit_RequestsPerMinute :: int
  RateLimit_Enabled :: bool
  Payload_Enabled :: bool
  ExcludedIPs :: "string list"
  TelegramNotification :: nat

text \<open>The defaulting of the rate limit in \<^verbatim>\<open>LoadConfiguration\<close>, after the YAML is parsed.\<close>

definition LoadConfiguration :: "Configuration \<Rightarrow> Configuration" where
  "LoadConfiguration conf =
     (if RateLimit_RequestsPerMinute conf = 0
      then conf\<lparr>RateLimit_RequestsPerMinute := 5, RateLimit_Enabled := True\<rparr>
      else conf)"

record GateKeeper =
  config :: Configuration
  db :: IPDatabase
  unifiClients :: nat
  notifier :: nat
  rateLimiter :: IPRateLimiter

text \<open>
  \<^verbatim>\<open>NewGateKeeper\<close>, for a valid API key. Its other arguments are the number of UniFi
  controllers whose login succeeded and the rows already in the database file.
\<close>

definition NewGateKeeper :: "Configuration \<Rightarrow> nat \<Rightarrow> (string \<rightharpoonup> row) \<Rightarrow> GateKeeper" where
  "NewGateKeeper cfg loggedIn stored =
     \<lparr>config = cfg,
      db = \<lparr>ip_info = stored, ttl = DefaultCacheTTL\<rparr>,
      unifiClients = loggedIn,
      notifier = TelegramNotification cfg,
      rateLimiter =
        (if RateLimit_Enabled cfg
         then NewIPRateLimiter (RateLimit_RequestsPerMinute cfg) (1 * Minute)
         else NewDefaultIPRateLimiter)\<rparr>"

definition isExcludedIP :: "GateKeeper \<Rightarrow> string \<Rightarrow> bool" where
  "isExcludedIP g ip = (ip \<in> set (ExcludedIPs (config g)))"


section \<open>Package gatekeeper: the request handler\<close>

text \<open>
  A request is known by the identity \<^verbatim>\<open>extractClientIP\<close> computed for it and by its
  \<^verbatim>\<open>RequestURI\<close>. Everything else the handler obtains from outside is gathered in an
  environment, one per request: the clock readings, the answer of AbuseIPDB, whether each
  database statement fails, the file \<^verbatim>\<open>savePayload\<close> wrote (empty when it wrote none),
  and for each UniFi client and each notifier whether its call fails.
\<close>

record request =
  clientIP :: string
  RequestURI :: string

record env =
  clock :: Time
  getNow :: int
  getErr :: bool
  check :: "error + IPScore \<times> string"
  infoNow :: int
  savedPayload :: string
  setNow :: int
  setErr :: bool
  addErr :: "nat \<Rightarrow> bool"
  markNow :: int
  markErr :: "nat \<Rightarrow> bool"
  notifyErr :: "nat \<Rightarrow> bool"

text \<open>
  The calls the handler makes, in the order it makes them. \<open>Notify k i\<close> is the start of
  the goroutine that sends the message for \<open>i\<close> through notifier \<open>k\<close>.
\<close>

datatype event =
    RateCheck string
  | StoreGet string
  | ExternalCheck string
  | SavePayload string
  | StorePut IPInfo
  | FirewallAdd nat string
  | StoreMarkBlocked string
  | Notify nat IPInfo

text \<open>
  The four ends of the handler: 200, 429, \<^verbatim>\<open>g.tarpit\<close> and \<^verbatim>\<open>g.dropConnection\<close>.
\<close>

datatype response = StatusOK | StatusTooManyRequests | Tarpit | DropConnection

text \<open>
  \<^verbatim>\<open>blockIPInUniFi\<close>: the loop over the clients, here over their indices. A client whose
  \<^verbatim>\<open>AddIPToFirewall\<close> succeeds sets the flag of the record in hand and marks the row.
\<close>

fun blockIPInUniFi ::
  "nat list \<Rightarrow> env \<Rightarrow> IPInfo \<Rightarrow> IPDatabase \<Rightarrow> IPInfo \<times> IPDatabase \<times> event list" where
  "blockIPInUniFi [] e ipInfo d = (ipInfo, d, [])"
| "blockIPInUniFi (k # ks) e ipInfo d =
     (if addErr e k then
        (case blockIPInUniFi ks e ipInfo d of
           (i', d', evs) \<Rightarrow> (i', d', FirewallAdd k (Address ipInfo) # evs))
      else
        (case blockIPInUniFi ks e (ipInfo\<lparr>BlockedInFW := True\<rparr>)
                (snd (MarkBlocked d (Address ipInfo) (markNow e) (markErr e k))) of
           (i', d', evs) \<Rightarrow>
             (i', d', FirewallAdd k (Address ipInfo) # StoreMarkBlocked (Address ipInfo) # evs)))"

text \<open>
  \<^verbatim>\<open>getOrCreateIPInfo\<close> in two parts. \<open>createIPInfo\<close> is its second half, from the
  construction of the new record on: it takes the score and the country that the first
  half settled on (those of AbuseIPDB, or 0 and \<^verbatim>\<open>"Unknown"\<close> when the check failed).
\<close>

definition createIPInfo ::
  "GateKeeper \<Rightarrow> string \<Rightarrow> string \<Rightarrow> env \<Rightarrow> IPScore \<times> string \<Rightarrow> IPInfo \<times> IPDatabase \<times> event list"
  where
  "createIPInfo g ip pth e sc =
     (let ipInfo0 = \<lparr>Address = ip, Score = fst sc, Country = snd sc, Path = pth,
                     PayloadPath = [], BlockedInFW = False, Timestamp = infoNow e\<rparr>;
          ipInfo = (if Payload_Enabled (config g) \<and> savedPayload e \<noteq> []
                    then ipInfo0\<lparr>PayloadPath := savedPayload e\<rparr> else ipInfo0);
          evs = (if Payload_Enabled (config g) then [SavePayload ip] else []) @ [StorePut ipInfo];
          d = snd (Set (db g) ipInfo (setNow e) (setErr e))
      in if IsHighRisk ipInfo \<and> unifiClients g > 0 then
           (case blockIPInUniFi [0..<unifiClients g] e ipInfo d of
              (i', d', bevs) \<Rightarrow> (i', d', evs @ bevs))
         else (ipInfo, d, evs))"

definition checked :: "env \<Rightarrow> IPScore \<times> string" where
  "checked e = (case check e of Inl err \<Rightarrow> (0, ''Unknown'') | Inr r \<Rightarrow> r)"

definition getOrCreateIPInfo ::
  "GateKeeper \<Rightarrow> string \<Rightarrow> string \<Rightarrow> env \<Rightarrow> IPInfo \<times> IPDatabase \<times> event list" where
  "getOrCreateIPInfo g ip pth e =
     (case Get (db g) ip (getNow e) (getErr e) of
        Some entry \<Rightarrow> (entry\<lparr>Path := pth\<rparr>, db g, [StoreGet ip])
      | None \<Rightarrow>
          (case createIPInfo g ip pth e (checked e) of
             (i, d, evs) \<Rightarrow> (i, d, StoreGet ip # ExternalCheck ip # evs)))"

text \<open>
  \<^verbatim>\<open>MultiNotifier.Notify\<close> starts one goroutine per notifier and returns; a goroutine
  whose delivery fails writes a log line and nothing else. The log of a request is the
  list of the notifiers that failed.
\<close>

definition MultiNotifier_Notify :: "nat \<Rightarrow> IPInfo \<Rightarrow> event list" where
  "MultiNotifier_Notify n ipInfo = map (\<lambda>k. Notify k ipInfo) [0..<n]"

definition notification_log :: "nat \<Rightarrow> env \<Rightarrow> nat list" where
  "notification_log n e = filter (notifyErr e) [0..<n]"

record outcome =
  resp :: response
  after :: GateKeeper
  trace :: "event list"
  errlog :: "nat list"

definition handler :: "GateKeeper \<Rightarrow> request \<Rightarrow> env \<Rightarrow> outcome" where
  "handler g r e =
     (let ip = clientIP r in
      if isExcludedIP g ip then
        \<lparr>resp = StatusOK, after = g, trace = [], errlog = []\<rparr>
      else
        (case Allow (rateLimiter g) ip (clock e) of
           (ok, rl) \<Rightarrow>
             if \<not> ok then
               \<lparr>resp = StatusTooManyRequests, after = g\<lparr>rateLimiter := rl\<rparr>,
                trace = [RateCheck ip], errlog = []\<rparr>
             else
               (case getOrCreateIPInfo g ip (RequestURI r) e of
                  (ipInfo, d, evs) \<Rightarrow>
                    \<lparr>resp = (if IsHighRisk ipInfo then Tarpit else DropConnection),
                     after = g\<lparr>rateLimiter := rl, db := d\<rparr>,
                     trace = RateCheck ip # evs @ MultiNotifier_Notify (notifier g) ipInfo,
                     errlog = notification_log (notifier g) e\<rparr>)))"

text \<open>Requests handled one after the other.\<close>

fun serve :: "GateKeeper \<Rightarrow> (request \<times> env) list \<Rightarrow> response list \<times> GateKeeper" where
  "serve g [] = ([], g)"
| "serve g ((r, e) # rs) =
     (let out = handler g r e in
      case serve (after out) rs of (resps, g') \<Rightarrow> (resp out # resps, g'))"


text \<open>The reputation lookups among the calls, and the notifications among them.\<close>

fun is_lookup :: "event \<Rightarrow> bool" where
  "is_lookup (StoreGet ip) = True"
| "is_lookup (ExternalCheck ip) = True"
| "is_lookup ev = False"

fun is_notify :: "event \<Rightarrow> bool" where
  "is_notify (Notify k i) = True"
| "is_notify ev = False"


section \<open>Requests in flight together\<close>

text \<open>
  \<^verbatim>\<open>net/http\<close> runs every request in a goroutine of its own, and \<^verbatim>\<open>getOrCreateIPInfo\<close>
  takes no lock: between its calls other requests may run. A resolution in flight is at
  one of four points: before \<^verbatim>\<open>db.Get\<close>; after a miss, before the call of AbuseIPDB;
  after the answer, before the record is built and stored; finished, with the record it
  returns. Each database statement is one atomic step of SQLite. The shared state is the
  database and the list of the calls made to AbuseIPDB.
\<close>

datatype pc = Start | Missed | Checked "IPScore \<times> string" | Done IPInfo

record thread =
  t_ip :: string
  t_path :: string
  t_env :: env
  t_pc :: pc

record shared =
  s_gk :: GateKeeper
  s_calls :: "string list"
  s_threads :: "thread list"

definition thread_step :: "GateKeeper \<Rightarrow> string list \<Rightarrow> thread \<Rightarrow> GateKeeper \<times> string list \<times> thread"
  where
  "thread_step g calls t =
     (case t_pc t of
        Start \<Rightarrow>
          (case Get (db g) (t_ip t) (getNow (t_env t)) (getErr (t_env t)) of
             Some entry \<Rightarrow> (g, calls, t\<lparr>t_pc := Done (entry\<lparr>Path := t_path t\<rparr>)\<rparr>)
           | None \<Rightarrow> (g, calls, t\<lparr>t_pc := Missed\<rparr>))
      | Missed \<Rightarrow> (g, calls @ [t_ip t], t\<lparr>t_pc := Checked (checked (t_env t))\<rparr>)
      | Checked sc \<Rightarrow>
          (case createIPInfo g (t_ip t) (t_path t) (t_env t) sc of
             (i, d, evs) \<Rightarrow> (g\<lparr>db := d\<rparr>, calls, t\<lparr>t_pc := Done i\<rparr>))
      | Done i \<Rightarrow> (g, calls, t))"

definition step :: "shared \<Rightarrow> nat \<Rightarrow> shared" where
  "step s k =
     (if k < length (s_threads s) then
        (case thread_step (s_gk s) (s_calls s) (s_threads s ! k) of
           (g, calls, t) \<Rightarrow> \<lparr>s_gk = g, s_calls = calls, s_threads = (s_threads s)[k := t]\<rparr>)
      else s)"

text \<open>A schedule names the thread that takes each step.\<close>

fun run :: "shared \<Rightarrow> nat list \<Rightarrow> shared" where
  "run s [] = s"
| "run s (k # ks) = run (step s k) ks"

text \<open>
  Package queue: a map from keys to mutexes, with a mutex made on first use. A mutex is
  known by its number. No function of the other packages calls \<^verbatim>\<open>NewIPQueue\<close> or
  \<^verbatim>\<open>IPQueue.Get\<close>.
\<close>

record IPQueue =
  ipScan :: "string \<rightharpoonup> nat"
  fresh :: nat

definition IPQueue_Get :: "IPQueue \<Rightarrow> string \<Rightarrow> nat \<times> IPQueue" where
  "IPQueue_Get q key =
     (case ipScan q key of
        Some m \<Rightarrow> (m, q)
      | None \<Rightarrow> (fresh q, q\<lparr>ipScan := (ipScan q)(key \<mapsto> fresh q), fresh := Suc (fresh q)\<rparr>))"


section \<open>Example values\<close>

text \<open>
  A row stored at second 1000 for 203.0.113.7, blocked and with a captured payload, in a
  database with the default TTL; and a record for the same address with no payload and
  \<open>BlockedInFW = False\<close>, as \<^verbatim>\<open>getOrCreateIPInfo\<close> builds it.
\<close>

definition stored_row :: row where
  "stored_row = \<lparr>score = 90, country = ''NL'', path = ''/admin'',
                  payload_path = Some ''./payloads/old.bin'', blocked_in_fw = True,
                  timestamp = 1000, updated_at = 1000\<rparr>"

definition stored_db :: IPDatabase where
  "stored_db = \<lparr>ip_info = [''203.0.113.7'' \<mapsto> stored_row], ttl = DefaultCacheTTL\<rparr>"

definition new_info :: IPInfo where
  "new_info = \<lparr>Address = ''203.0.113.7'', Score = 10, Country = ''NL'', Path = ''/login'',
                PayloadPath = [], BlockedInFW = False, Timestamp = 5000\<rparr>"


text \<open>
  A gatekeeper with a limit of 5 requests per minute, one UniFi client, one notifier and
  payload capture off, started on \<open>stored_db\<close>; an environment at database second 5000 in
  which AbuseIPDB answers score 10 and nothing fails; and two requests.
\<close>

definition gk0 :: GateKeeper where
  "gk0 = NewGateKeeper
           \<lparr>RateLimit_RequestsPerMinute = 5, RateLimit_Enabled = True, Payload_Enabled = False,
            ExcludedIPs = [''192.168.1.10''], TelegramNotification = 1\<rparr>
           1 (ip_info stored_db)"

definition env0 :: env where
  "env0 = \<lparr>clock = 0, getNow = 5000, getErr = False, check = Inr (10, ''NL''),
           infoNow = 5000, savedPayload = [], setNow = 5000, setErr = False,
           addErr = (\<lambda>k. False), markNow = 5000, markErr = (\<lambda>k. False),
           notifyErr = (\<lambda>k. False)\<rparr>"

definition req7 :: request where
  "req7 = \<lparr>clientIP = ''203.0.113.7'', RequestURI = ''/login''\<rparr>"

definition req8 :: request where
  "req8 = \<lparr>clientIP = ''203.0.113.8'', RequestURI = ''/login''\<rparr>"


text \<open>
  Two first requests of 203.0.113.8 in flight together; AbuseIPDB would answer the first
  with score 10 and refuse the second.
\<close>

definition env429 :: env where
  "env429 = env0\<lparr>check := Inl (Err ''abuseipdb: API returned status 429'')\<rparr>"

definition first_sighting :: "env \<Rightarrow> thread" where
  "first_sighting e = \<lparr>t_ip = ''203.0.113.8'', t_path = ''/login'', t_env = e, t_pc = Start\<rparr>"

definition two_in_flight :: shared where
  "two_in_flight =
     \<lparr>s_gk = gk0, s_calls = [], s_threads = [first_sighting env0, first_sighting env429]\<rparr>"


section \<open>The risk classifier\<close>

text \<open>
  C1. The classifier is the exact function of the score: \<open>IsHighRisk\<close> holds exactly when
  the score is above 75; the severity is High above 75, Medium from 25 to 75 and Low below
  25; a score of 75 is Medium and not high-risk, a score of 76 is High and high-risk. It
  is proved for every integer score, so in particular for the scores 0..100.
\<close>

theorem classifier_exact:
  "IsHighRisk i = (Score i > 75)
   \<and> (GetSeverity i = SeverityHigh) = (Score i > 75)
   \<and> (GetSeverity i = SeverityMedium) = (25 \<le> Score i \<and> Score i \<le> 75)
   \<and> (GetSeverity i = SeverityLow) = (Score i < 25)
   \<and> GetSeverity (i\<lparr>Score := 75\<rparr>) = SeverityMedium \<and> \<not> IsHighRisk (i\<lparr>Score := 75\<rparr>)
   \<and> GetSeverity (i\<lparr>Score := 76\<rparr>) = SeverityHigh \<and> IsHighRisk (i\<lparr>Score := 76\<rparr>)"
  by (simp add: IsHighRisk_def GetSeverity_def ScoreThreshold_def ScoreLow_def)


section \<open>The rate limiter\<close>

lemma Sub_le_window:
  "t - u \<le> w \<Longrightarrow> minDuration \<le> w \<Longrightarrow> \<not> Sub t u > w"
  by (simp add: Sub_def minDuration_def maxDuration_def)

lemma Sub_gt_window:
  "t - u > w \<Longrightarrow> w < maxDuration \<Longrightarrow> Sub t u > w"
  by (simp add: Sub_def minDuration_def maxDuration_def)

lemma Allow_first:
  "visitors rl ip = None \<Longrightarrow>
   Allow rl ip now = (True, rl\<lparr>visitors := (visitors rl)(ip \<mapsto> \<lparr>count = 1, lastReset = now, lastAccess = now\<rparr>)\<rparr>)"
  by (simp add: Allow_def)

lemma Allow_within:
  "visitors rl ip = Some v \<Longrightarrow> now - lastReset v \<le> window rl \<Longrightarrow> minDuration \<le> window rl \<Longrightarrow>
   0 \<le> count v \<Longrightarrow> count v < 100 \<Longrightarrow>
   Allow rl ip now = (count v + 1 \<le> rate rl,
       rl\<lparr>visitors := (visitors rl)(ip \<mapsto> v\<lparr>lastAccess := now, count := count v + 1\<rparr>)\<rparr>)"
proof -
  assume a: "visitors rl ip = Some v" "now - lastReset v \<le> window rl" "minDuration \<le> window rl"
    "0 \<le> count v" "count v < 100"
  have w: "int64_wrap (count v + 1) = count v + 1"
    using a(4,5) by (simp add: int64_wrap_def)
  have s: "\<not> Sub now (lastReset v) > window rl"
    using a(2,3) by (rule Sub_le_window)
  show ?thesis using a(1) s by (simp add: Allow_def Let_def w)
qed

lemma Allow_reset:
  "visitors rl ip = Some v \<Longrightarrow> now - lastReset v > window rl \<Longrightarrow> window rl < maxDuration \<Longrightarrow>
   Allow rl ip now = (True,
       rl\<lparr>visitors := (visitors rl)(ip \<mapsto> v\<lparr>lastAccess := now, count := 1, lastReset := now\<rparr>)\<rparr>)"
  using Sub_gt_window[of "window rl" now "lastReset v"]
  by (simp add: Allow_def Let_def)

lemma Allow_other:
  "ip' \<noteq> ip \<Longrightarrow> visitors (snd (Allow rl ip' now)) ip = visitors rl ip"
  by (simp add: Allow_def Let_def split: option.splits)

lemma Allow_params:
  "rate (snd (Allow rl ip now)) = rate rl \<and> window (snd (Allow rl ip now)) = window rl"
  by (simp add: Allow_def Let_def split: option.splits)

text \<open>
  C2. Fixed-window counting. The first \<open>Allow\<close> for an identity the limiter does not know
  returns true, whatever the rate, and opens a window with count 1. With rate 5, six calls
  for a new identity, the last five no later than one window after the first, return true
  five times and then false. A call later than one window after the window's start returns
  true and leaves count 1 and a window starting at the call. Calls for another identity do
  not touch the identity's counter. The window is an \<^verbatim>\<open>int64\<close> below its maximum.
\<close>

theorem fixed_window_counting:
  "(visitors rl ip = None \<longrightarrow>
      fst (Allow rl ip now) \<and>
      visitors (snd (Allow rl ip now)) ip = Some \<lparr>count = 1, lastReset = now, lastAccess = now\<rparr>)
   \<and> (visitors rl ip = None \<and> rate rl = 5 \<and> minDuration \<le> window rl \<and>
        t2 - t1 \<le> window rl \<and> t3 - t1 \<le> window rl \<and> t4 - t1 \<le> window rl \<and>
        t5 - t1 \<le> window rl \<and> t6 - t1 \<le> window rl \<longrightarrow>
      fst (allow_seq rl [(ip, t1), (ip, t2), (ip, t3), (ip, t4), (ip, t5), (ip, t6)])
        = [True, True, True, True, True, False])
   \<and> (visitors rl ip = Some v \<and> now - lastReset v > window rl \<and> window rl < maxDuration \<longrightarrow>
      fst (Allow rl ip now) \<and>
      visitors (snd (Allow rl ip now)) ip = Some \<lparr>count = 1, lastReset = now, lastAccess = now\<rparr>)
   \<and> (ip' \<noteq> ip \<longrightarrow> visitors (snd (Allow rl ip' now)) ip = visitors rl ip)"
proof (intro conjI impI)
  assume "visitors rl ip = None"
  then show "fst (Allow rl ip now)"
    and "visitors (snd (Allow rl ip now)) ip = Some \<lparr>count = 1, lastReset = now, lastAccess = now\<rparr>"
    by (simp_all add: Allow_first)
next
  assume h: "visitors rl ip = Some v \<and> now - lastReset v > window rl \<and> window rl < maxDuration"
  then show "fst (Allow rl ip now)"
    and "visitors (snd (Allow rl ip now)) ip = Some \<lparr>count = 1, lastReset = now, lastAccess = now\<rparr>"
    by (simp_all add: Allow_reset)
next
  assume "ip' \<noteq> ip"
  then show "visitors (snd (Allow rl ip' now)) ip = visitors rl ip" by (rule Allow_other)
next
  assume h: "visitors rl ip = None \<and> rate rl = 5 \<and> minDuration \<le> window rl \<and>
        t2 - t1 \<le> window rl \<and> t3 - t1 \<le> window rl \<and> t4 - t1 \<le> window rl \<and>
        t5 - t1 \<le> window rl \<and> t6 - t1 \<le> window rl"
  show "fst (allow_seq rl [(ip, t1), (ip, t2), (ip, t3), (ip, t4), (ip, t5), (ip, t6)])
        = [True, True, True, True, True, False]"
    using h by (simp add: Allow_first Allow_within)
qed


theorem fixed_window_counting_witness:
  "fst (allow_seq (NewIPRateLimiter 5 (60 * Second))
          [(''203.0.113.9'', 0), (''203.0.113.9'', 10 * Second), (''203.0.113.9'', 20 * Second),
           (''203.0.113.9'', 30 * Second), (''203.0.113.9'', 40 * Second),
           (''203.0.113.9'', 60 * Second)])
     = [True, True, True, True, True, False]
   \<and> fst (Allow (NewIPRateLimiter 1 (60 * Second)) ''203.0.113.9'' 7)
   \<and> fst (Allow (snd (Allow (NewIPRateLimiter 1 (60 * Second)) ''203.0.113.9'' 0))
            ''203.0.113.9'' (61 * Second))
   \<and> visitors (snd (Allow (snd (Allow (NewIPRateLimiter 1 (60 * Second)) ''203.0.113.9'' 0))
            ''203.0.113.9'' (61 * Second))) ''203.0.113.9''
       = Some \<lparr>count = 1, lastReset = 61 * Second, lastAccess = 61 * Second\<rparr>"
  using
    fixed_window_counting [where rl = "NewIPRateLimiter 5 (60 * Second)" and ip = "''203.0.113.9''"
      and ?t1.0 = 0 and ?t2.0 = "10 * Second" and ?t3.0 = "20 * Second" and ?t4.0 = "30 * Second"
      and ?t5.0 = "40 * Second" and ?t6.0 = "60 * Second"]
    fixed_window_counting [where rl = "NewIPRateLimiter 1 (60 * Second)" and ip = "''203.0.113.9''"
      and now = 7]
    fixed_window_counting [where rl = "snd (Allow (NewIPRateLimiter 1 (60 * Second)) ''203.0.113.9'' 0)"
      and ip = "''203.0.113.9''" and now = "61 * Second"
      and v = "\<lparr>count = 1, lastReset = 0, lastAccess = 0\<rparr>"]
  by (simp add: NewIPRateLimiter_def Second_def minDuration_def maxDuration_def Allow_def)


section \<open>Rate limiting switched off\<close>

text \<open>
  C4. With \<^verbatim>\<open>ratelimit.enabled: false\<close> and \<^verbatim>\<open>requests_per_minute: 10\<close> the loaded
  configuration keeps \<open>RateLimit_Enabled = False\<close>, and the limiter that \<open>NewGateKeeper\<close>
  installs is the default one: of six calls for one identity within five seconds the sixth
  is refused, and the handler answers the sixth request with 429. The limiter of a disabled
  configuration is not an always-allow limiter.
\<close>

theorem disabled_limiter_rejects_sixth:
  "\<not> RateLimit_Enabled
       (LoadConfiguration \<lparr>RateLimit_RequestsPerMinute = 10, RateLimit_Enabled = False,
          Payload_Enabled = False, ExcludedIPs = [], TelegramNotification = 0\<rparr>)
   \<and> fst (allow_seq
        (rateLimiter (NewGateKeeper
           (LoadConfiguration \<lparr>RateLimit_RequestsPerMinute = 10, RateLimit_Enabled = False,
              Payload_Enabled = False, ExcludedIPs = [], TelegramNotification = 0\<rparr>)
           0 Map.empty))
        [(''203.0.113.9'', 0), (''203.0.113.9'', 1 * Second), (''203.0.113.9'', 2 * Second),
         (''203.0.113.9'', 3 * Second), (''203.0.113.9'', 4 * Second),
         (''203.0.113.9'', 5 * Second)])
     = [True, True, True, True, True, False]
   \<and> resp (handler
        ((NewGateKeeper
           (LoadConfiguration \<lparr>RateLimit_RequestsPerMinute = 10, RateLimit_Enabled = False,
              Payload_Enabled = False, ExcludedIPs = [], TelegramNotification = 0\<rparr>)
           0 Map.empty)
         \<lparr>rateLimiter := snd (allow_seq
            (rateLimiter (NewGateKeeper
               (LoadConfiguration \<lparr>RateLimit_RequestsPerMinute = 10, RateLimit_Enabled = False,
                  Payload_Enabled = False, ExcludedIPs = [], TelegramNotification = 0\<rparr>)
               0 Map.empty))
            [(''203.0.113.9'', 0), (''203.0.113.9'', 1 * Second), (''203.0.113.9'', 2 * Second),
             (''203.0.113.9'', 3 * Second), (''203.0.113.9'', 4 * Second)])\<rparr>)
        \<lparr>clientIP = ''203.0.113.9'', RequestURI = ''/''\<rparr> (env0\<lparr>clock := 5 * Second\<rparr>))
     = StatusTooManyRequests"
  by (simp add: LoadConfiguration_def NewGateKeeper_def NewDefaultIPRateLimiter_def
      NewIPRateLimiter_def DefaultRate_def DefaultWindow_def Minute_def Second_def
      Allow_def Sub_def minDuration_def maxDuration_def int64_wrap_def Let_def
      handler_def isExcludedIP_def env0_def)



section \<open>The reputation store\<close>

lemma Set_ok_ttl: "ttl (snd (Set d info now ex)) = ttl d"
  by (simp add: Set_def Let_def)

lemma Set_other: "a \<noteq> Address info \<Longrightarrow> ip_info (snd (Set d info now ex)) a = ip_info d a"
  by (simp add: Set_def Let_def)

lemma Set_insert:
  "ip_info d (Address info) = None \<Longrightarrow>
   ip_info (snd (Set d info now False)) (Address info) =
     Some \<lparr>score = Score info, country = Country info, path = Path info,
           payload_path = (if PayloadPath info = [] then None else Some (PayloadPath info)),
           blocked_in_fw = BlockedInFW info, timestamp = now, updated_at = now\<rparr>"
  by (simp add: Set_def Let_def)

lemma Set_update:
  "ip_info d (Address info) = Some r \<Longrightarrow>
   ip_info (snd (Set d info now False)) (Address info) =
     Some (r\<lparr>score := Score info, country := Country info, path := Path info,
           payload_path := (if PayloadPath info = [] then None else Some (PayloadPath info)),
           blocked_in_fw := BlockedInFW info, updated_at := now\<rparr>)"
  by (simp add: Set_def Let_def)

lemma Set_failed: "Set d info now True = (Some (Err ''failed to set IP info''), d)"
  by (simp add: Set_def Let_def)

lemma Get_Some_iff:
  "(Get d ip now False \<noteq> None) = (\<exists>r. ip_info d ip = Some r \<and> now < timestamp r + ttl d)"
  by (auto simp: Get_def split: option.splits)

lemma cleanup_row:
  "0 \<le> ttl d \<Longrightarrow>
   ip_info (cleanup d now False) ip =
     (case ip_info d ip of None \<Rightarrow> None
      | Some r \<Rightarrow> if now - timestamp r > ttl d then None else Some r)"
  by (auto simp: cleanup_def split: option.splits)

lemma MarkBlocked_ttl: "ttl (snd (MarkBlocked d ip now ex)) = ttl d"
  by (simp add: MarkBlocked_def split: option.splits)

lemma MarkBlocked_other:
  "a \<noteq> ip \<Longrightarrow> ip_info (snd (MarkBlocked d ip now ex)) a = ip_info d a"
  by (simp add: MarkBlocked_def split: option.splits)

lemma MarkBlocked_absent: "ip_info d ip = None \<Longrightarrow> snd (MarkBlocked d ip now ex) = d"
  by (simp add: MarkBlocked_def)

lemma MarkBlocked_failed: "snd (MarkBlocked d ip now True) = d"
  by (simp add: MarkBlocked_def)

lemma MarkBlocked_present:
  "ip_info d ip = Some r \<Longrightarrow>
   ip_info (snd (MarkBlocked d ip now False)) ip = Some (r\<lparr>blocked_in_fw := True, updated_at := now\<rparr>)"
  by (simp add: MarkBlocked_def)

lemma MarkBlocked_row:
  "ip_info (snd (MarkBlocked d ip now ex)) a =
     (case ip_info d a of None \<Rightarrow> None
      | Some r \<Rightarrow> Some (if a = ip \<and> \<not> ex then r\<lparr>blocked_in_fw := True, updated_at := now\<rparr> else r))"
  by (simp add: MarkBlocked_def split: option.splits)

lemma first_insert_ttl:
  "0 \<le> ttl d \<Longrightarrow> ip_info d (Address info) = None \<Longrightarrow>
   Get (snd (Set d info T False)) (Address info) now False
     = (if now < T + ttl d then Some (info\<lparr>Timestamp := T\<rparr>) else None)"
  by (simp add: Get_def Set_insert Set_ok_ttl)

lemma put_over_row_ttl:
  "0 \<le> ttl d \<Longrightarrow> ip_info d (Address info) = Some r \<Longrightarrow>
   (Get (snd (Set d info T False)) (Address info) now False \<noteq> None)
     = (now < timestamp r + ttl d)"
  by (simp add: Get_def Set_update Set_ok_ttl)

lemma IPCache_put_then_get:
  "now - T \<le> ttl_cache c \<Longrightarrow> minDuration \<le> ttl_cache c \<Longrightarrow>
   IPCache_Get (IPCache_Set c info T) (Address info) now = Some (info\<lparr>Timestamp := T\<rparr>)"
  using Sub_le_window [of now T "ttl_cache c"]
  by (simp add: IPCache_Get_def IPCache_Set_def)

text \<open>
  C3. A put over a row that is already there does not make the record fresh. The row of
  203.0.113.7 was created at second 1000 and the TTL is 3600 seconds; the record put at
  second 5000 is absent at second 5000 and at second 8599, both before 5000 + 3600, while
  the same put into an empty table is returned at second 8599. In the handler, the request
  at second 5000 misses, calls AbuseIPDB and stores its record, and the request of the same
  identity one second later misses again and calls AbuseIPDB again. The upsert of \<open>Set\<close>
  leaves \<open>timestamp\<close> as it was, where \<open>IPCache_Set\<close> stamps every record it stores
  (\<open>IPCache_put_then_get\<close>), and the expired row stays: \<^verbatim>\<open>cleanupLoop\<close>, which would run
  \<open>cleanup\<close>, has no caller. For a first insert \<open>Get\<close> answers as the TTL says
  (\<open>first_insert_ttl\<close>), and \<open>cleanup\<close>, when it is run, deletes exactly the rows older
  than the TTL (\<open>cleanup_row\<close>).
\<close>

theorem put_over_expired_row_stays_absent:
  "ip_info stored_db ''203.0.113.7'' = Some stored_row
   \<and> timestamp stored_row = 1000 \<and> ttl stored_db = 3600
   \<and> Get (snd (Set stored_db new_info 5000 False)) ''203.0.113.7'' 5000 False = None
   \<and> Get (snd (Set stored_db new_info 5000 False)) ''203.0.113.7'' 8599 False = None
   \<and> Get (snd (Set \<lparr>ip_info = Map.empty, ttl = 3600\<rparr> new_info 5000 False)) ''203.0.113.7'' 8599 False
       = Some new_info
   \<and> ExternalCheck ''203.0.113.7'' \<in> set (trace (handler gk0 req7 env0))
   \<and> ExternalCheck ''203.0.113.7''
       \<in> set (trace (handler (after (handler gk0 req7 env0)) req7
                  (env0\<lparr>clock := 1 * Second, getNow := 5001, setNow := 5001\<rparr>)))"
  by (simp add: gk0_def env0_def req7_def NewGateKeeper_def NewIPRateLimiter_def isExcludedIP_def
      handler_def getOrCreateIPInfo_def createIPInfo_def checked_def Get_def Set_def
      stored_db_def stored_row_def new_info_def IsHighRisk_def ScoreThreshold_def
      MultiNotifier_Notify_def DefaultCacheTTL_def Allow_def Sub_def minDuration_def
      maxDuration_def int64_wrap_def Minute_def Second_def Let_def)

lemma blockIPInUniFi_payload:
  "map_option payload_path (ip_info (fst (snd (blockIPInUniFi ks e i d))) a)
   = map_option payload_path (ip_info d a)"
  by (induction ks arbitrary: i d)
     (simp_all add: case_prod_beta MarkBlocked_row split: option.splits)

lemma createIPInfo_payload:
  "\<not> setErr e \<Longrightarrow> ip_info (db g) ip = Some r \<Longrightarrow>
   map_option payload_path (ip_info (fst (snd (createIPInfo g ip pth e sc))) ip)
   = Some (if Payload_Enabled (config g) \<and> savedPayload e \<noteq> [] then Some (savedPayload e)
           else None)"
  by (simp add: createIPInfo_def Let_def case_prod_beta blockIPInUniFi_payload Set_def
      del: map_option_eq_Some)

text \<open>
  C6, as the claim states it, fails: a put for an address that has a row with a payload
  reference, by a caller that supplies none, stores NULL in its place. The handler does
  so for a request of 203.0.113.7 at second 5000, when the row has expired.
\<close>

theorem put_drops_payload_counterexample:
  "ip_info stored_db (Address new_info) = Some stored_row
   \<and> payload_path stored_row = Some ''./payloads/old.bin''
   \<and> PayloadPath new_info = []
   \<and> map_option payload_path (ip_info (snd (Set stored_db new_info 5000 False)) (Address new_info))
       = Some None
   \<and> map_option payload_path (ip_info (db gk0) ''203.0.113.7'') = Some (Some ''./payloads/old.bin'')
   \<and> map_option payload_path (ip_info (db (after (handler gk0 req7 env0))) ''203.0.113.7'')
       = Some None"
  by (simp add: gk0_def env0_def req7_def NewGateKeeper_def NewIPRateLimiter_def isExcludedIP_def
      handler_def getOrCreateIPInfo_def createIPInfo_def checked_def Get_def Set_def
      stored_db_def stored_row_def new_info_def IsHighRisk_def ScoreThreshold_def
      MultiNotifier_Notify_def DefaultCacheTTL_def Allow_def Let_def)

text \<open>
  C6, amended. The put is an upsert that overwrites: when the address has a row, its score,
  country, path, payload reference and blocked flag become those of the new record, the
  payload reference becoming NULL when the new record has none, and \<open>updated_at\<close> the time
  of the put; the creation time of the row stays. Rows of other addresses are untouched,
  and a failing statement changes nothing. In \<^verbatim>\<open>getOrCreateIPInfo\<close> the put follows a
  miss, and the payload reference it leaves in an existing row is the file captured for
  this request, or NULL when capture is off or wrote nothing.
\<close>

theorem put_overwrites:
  "(ip_info d (Address info) = Some r \<longrightarrow>
      ip_info (snd (Set d info now False)) (Address info) =
        Some (r\<lparr>score := Score info, country := Country info, path := Path info,
                payload_path := (if PayloadPath info = [] then None else Some (PayloadPath info)),
                blocked_in_fw := BlockedInFW info, updated_at := now\<rparr>))
   \<and> (a \<noteq> Address info \<longrightarrow> ip_info (snd (Set d info now ex)) a = ip_info d a)
   \<and> snd (Set d info now True) = d
   \<and> (ip_info (db g) ip = Some r \<and> Get (db g) ip (getNow e) (getErr e) = None \<and> \<not> setErr e \<longrightarrow>
        map_option payload_path (ip_info (fst (snd (getOrCreateIPInfo g ip pth e))) ip)
        = Some (if Payload_Enabled (config g) \<and> savedPayload e \<noteq> [] then Some (savedPayload e)
                else None))"
  by (simp add: Set_update Set_other Set_failed getOrCreateIPInfo_def case_prod_beta
      createIPInfo_payload)

theorem put_overwrites_witness:
  "ip_info (snd (Set stored_db new_info 5000 False)) ''203.0.113.7'' =
     Some \<lparr>score = 10, country = ''NL'', path = ''/login'', payload_path = None,
           blocked_in_fw = False, timestamp = 1000, updated_at = 5000\<rparr>
   \<and> ip_info (snd (Set stored_db (new_info\<lparr>PayloadPath := ''./payloads/new.bin''\<rparr>) 5000 False))
        ''203.0.113.7'' =
     Some \<lparr>score = 10, country = ''NL'', path = ''/login'',
           payload_path = Some ''./payloads/new.bin'',
           blocked_in_fw = False, timestamp = 1000, updated_at = 5000\<rparr>
   \<and> ip_info (snd (Set stored_db new_info 5000 False)) ''203.0.113.8'' = None
   \<and> map_option payload_path
        (ip_info (fst (snd (getOrCreateIPInfo gk0 ''203.0.113.7'' ''/login'' env0))) ''203.0.113.7'')
      = Some None"
  using
    put_overwrites [where d = stored_db and info = new_info and r = stored_row and now = 5000
      and a = "''203.0.113.8''" and ex = False and g = gk0 and ip = "''203.0.113.7''"
      and e = env0 and pth = "''/login''"]
    put_overwrites [where d = stored_db and info = "new_info\<lparr>PayloadPath := ''./payloads/new.bin''\<rparr>"
      and r = stored_row and now = 5000 and a = "''203.0.113.8''" and ex = False
      and g = gk0 and ip = "''203.0.113.7''" and e = env0 and pth = "''/login''"]
  by (simp add: new_info_def stored_db_def stored_row_def gk0_def env0_def NewGateKeeper_def
      Get_def DefaultCacheTTL_def)

text \<open>
  C10. \<open>MarkBlocked\<close> sets the blocked flag (and the bookkeeping column \<open>updated_at\<close>, which
  no query reads) and nothing else: score, country, path, payload reference and creation
  time of the row are unchanged, rows of other addresses and the TTL are unchanged, and
  so \<open>Get\<close> misses and \<open>cleanup\<close> deletes after the call exactly what they did before it.
  For an absent address, and when the statement fails, the database is unchanged.
\<close>

theorem markBlocked_frame:
  "(ip_info d ip = Some r \<longrightarrow>
      (\<exists>r'. ip_info (snd (MarkBlocked d ip now False)) ip = Some r' \<and> blocked_in_fw r' \<and>
            score r' = score r \<and> country r' = country r \<and> path r' = path r \<and>
            payload_path r' = payload_path r \<and> timestamp r' = timestamp r))
   \<and> (ip_info d ip = None \<longrightarrow> snd (MarkBlocked d ip now ex) = d)
   \<and> snd (MarkBlocked d ip now True) = d
   \<and> (a \<noteq> ip \<longrightarrow> ip_info (snd (MarkBlocked d ip now ex)) a = ip_info d a)
   \<and> ttl (snd (MarkBlocked d ip now ex)) = ttl d
   \<and> (Get (snd (MarkBlocked d ip now ex)) a t q = None) = (Get d a t q = None)
   \<and> (ip_info (cleanup (snd (MarkBlocked d ip now ex)) t c) a = None)
       = (ip_info (cleanup d t c) a = None)"
proof (intro conjI impI)
  assume "ip_info d ip = Some r"
  then show "\<exists>r'. ip_info (snd (MarkBlocked d ip now False)) ip = Some r' \<and> blocked_in_fw r' \<and>
            score r' = score r \<and> country r' = country r \<and> path r' = path r \<and>
            payload_path r' = payload_path r \<and> timestamp r' = timestamp r"
    by (simp add: MarkBlocked_present)
next
  assume "ip_info d ip = None"
  then show "snd (MarkBlocked d ip now ex) = d" by (rule MarkBlocked_absent)
next
  show "snd (MarkBlocked d ip now True) = d" by (rule MarkBlocked_failed)
next
  assume "a \<noteq> ip"
  then show "ip_info (snd (MarkBlocked d ip now ex)) a = ip_info d a" by (rule MarkBlocked_other)
next
  show "ttl (snd (MarkBlocked d ip now ex)) = ttl d" by (rule MarkBlocked_ttl)
next
  show "(Get (snd (MarkBlocked d ip now ex)) a t q = None) = (Get d a t q = None)"
    by (simp add: Get_def MarkBlocked_row MarkBlocked_ttl split: option.splits)
next
  show "(ip_info (cleanup (snd (MarkBlocked d ip now ex)) t c) a = None)
       = (ip_info (cleanup d t c) a = None)"
    by (simp add: cleanup_def MarkBlocked_row MarkBlocked_ttl split: option.splits)
qed

theorem markBlocked_frame_witness:
  "ip_info (snd (MarkBlocked (snd (Set \<lparr>ip_info = Map.empty, ttl = 3600\<rparr> new_info 1000 False))
                  ''203.0.113.7'' 2000 False)) ''203.0.113.7''
     = Some \<lparr>score = 10, country = ''NL'', path = ''/login'', payload_path = None,
             blocked_in_fw = True, timestamp = 1000, updated_at = 2000\<rparr>
   \<and> snd (MarkBlocked stored_db ''203.0.113.8'' 2000 False) = stored_db
   \<and> Get (snd (MarkBlocked stored_db ''203.0.113.7'' 4000 False)) ''203.0.113.7'' 4600 False = None"
  using
    markBlocked_frame [where d = "snd (Set \<lparr>ip_info = Map.empty, ttl = 3600\<rparr> new_info 1000 False)"
      and ip = "''203.0.113.7''" and now = 2000 and ex = False and a = "''203.0.113.8''"
      and r = "\<lparr>score = 10, country = ''NL'', path = ''/login'', payload_path = None,
             blocked_in_fw = False, timestamp = 1000, updated_at = 1000\<rparr>"]
    markBlocked_frame [where d = stored_db and ip = "''203.0.113.8''" and now = 2000 and ex = False
      and a = "''203.0.113.7''"]
    markBlocked_frame [where d = stored_db and ip = "''203.0.113.7''" and now = 4000 and ex = False
      and a = "''203.0.113.7''" and t = 4600 and q = False and r = stored_row]
  by (simp add: new_info_def stored_db_def stored_row_def DefaultCacheTTL_def Set_def Let_def
      MarkBlocked_def Get_def)



section \<open>The request handler\<close>

lemma blockIPInUniFi_other:
  "a \<noteq> Address i \<Longrightarrow> ip_info (fst (snd (blockIPInUniFi ks e i d))) a = ip_info d a"
  by (induction ks arbitrary: i d) (simp_all add: case_prod_beta MarkBlocked_other)

lemma blockIPInUniFi_ttl:
  "ttl (fst (snd (blockIPInUniFi ks e i d))) = ttl d"
  by (induction ks arbitrary: i d) (simp_all add: case_prod_beta MarkBlocked_ttl)

lemma blockIPInUniFi_Address:
  "Address (fst (blockIPInUniFi ks e i d)) = Address i"
  by (induction ks arbitrary: i d) (simp_all add: case_prod_beta)

lemma blockIPInUniFi_Score:
  "Score (fst (blockIPInUniFi ks e i d)) = Score i"
  by (induction ks arbitrary: i d) (simp_all add: case_prod_beta)

lemma blockIPInUniFi_no_lookup:
  "\<not> is_lookup ev \<and> \<not> is_notify ev" if "ev \<in> set (snd (snd (blockIPInUniFi ks e i d)))"
  using that by (induction ks arbitrary: i d) (auto simp: case_prod_beta split: if_splits)

lemma createIPInfo_other:
  "a \<noteq> ip \<Longrightarrow> ip_info (fst (snd (createIPInfo g ip pth e sc))) a = ip_info (db g) a"
  by (simp add: createIPInfo_def Let_def case_prod_beta blockIPInUniFi_other Set_other)

lemma createIPInfo_ttl:
  "ttl (fst (snd (createIPInfo g ip pth e sc))) = ttl (db g)"
  by (simp add: createIPInfo_def Let_def case_prod_beta blockIPInUniFi_ttl Set_ok_ttl)

lemma createIPInfo_Score:
  "Score (fst (createIPInfo g ip pth e sc)) = fst sc"
  by (simp add: createIPInfo_def Let_def case_prod_beta blockIPInUniFi_Score)

lemma createIPInfo_no_lookup:
  "ev \<in> set (snd (snd (createIPInfo g ip pth e sc))) \<Longrightarrow> \<not> is_lookup ev \<and> \<not> is_notify ev"
  by (auto simp: createIPInfo_def Let_def case_prod_beta dest: blockIPInUniFi_no_lookup split: if_splits)

lemma getOrCreateIPInfo_hit:
  "Get (db g) ip (getNow e) (getErr e) = Some entry \<Longrightarrow>
   getOrCreateIPInfo g ip pth e = (entry\<lparr>Path := pth\<rparr>, db g, [StoreGet ip])"
  by (simp add: getOrCreateIPInfo_def)

lemma getOrCreateIPInfo_other:
  "a \<noteq> ip \<Longrightarrow> ip_info (fst (snd (getOrCreateIPInfo g ip pth e))) a = ip_info (db g) a"
  by (simp add: getOrCreateIPInfo_def case_prod_beta createIPInfo_other split: option.splits)

lemma getOrCreateIPInfo_ttl:
  "ttl (fst (snd (getOrCreateIPInfo g ip pth e))) = ttl (db g)"
  by (simp add: getOrCreateIPInfo_def case_prod_beta createIPInfo_ttl split: option.splits)

lemma getOrCreateIPInfo_trace:
  "\<exists>evs. snd (snd (getOrCreateIPInfo g ip pth e)) = StoreGet ip # evs
         \<and> (\<forall>ev \<in> set evs. \<not> is_notify ev)"
  by (auto simp: getOrCreateIPInfo_def case_prod_beta split: option.splits
      dest: createIPInfo_no_lookup)


lemma handler_excluded:
  "isExcludedIP g (clientIP r) \<Longrightarrow>
   handler g r e = \<lparr>resp = StatusOK, after = g, trace = [], errlog = []\<rparr>"
  by (simp add: handler_def)

lemma handler_limited:
  "\<not> isExcludedIP g (clientIP r) \<Longrightarrow> \<not> fst (Allow (rateLimiter g) (clientIP r) (clock e)) \<Longrightarrow>
   handler g r e =
     \<lparr>resp = StatusTooManyRequests,
      after = g\<lparr>rateLimiter := snd (Allow (rateLimiter g) (clientIP r) (clock e))\<rparr>,
      trace = [RateCheck (clientIP r)], errlog = []\<rparr>"
  by (simp add: handler_def Let_def case_prod_beta)

lemma handler_passed:
  "\<not> isExcludedIP g (clientIP r) \<Longrightarrow> fst (Allow (rateLimiter g) (clientIP r) (clock e)) \<Longrightarrow>
   handler g r e =
     \<lparr>resp = (if IsHighRisk (fst (getOrCreateIPInfo g (clientIP r) (RequestURI r) e))
              then Tarpit else DropConnection),
      after = g\<lparr>rateLimiter := snd (Allow (rateLimiter g) (clientIP r) (clock e)),
                db := fst (snd (getOrCreateIPInfo g (clientIP r) (RequestURI r) e))\<rparr>,
      trace = RateCheck (clientIP r) # snd (snd (getOrCreateIPInfo g (clientIP r) (RequestURI r) e))
              @ MultiNotifier_Notify (notifier g)
                  (fst (getOrCreateIPInfo g (clientIP r) (RequestURI r) e)),
      errlog = notification_log (notifier g) e\<rparr>"
  by (simp add: handler_def Let_def case_prod_beta)

text \<open>
  C8. No reputation lookup before both checks have passed. A request of an excluded
  identity is answered 200 with no call at all, the limiter untouched. A request that the
  limiter refuses is answered 429 after the rate check alone, the database untouched.
  Every other request makes the rate check first and the store lookup second. Hence a
  request whose calls contain a store lookup or a call of AbuseIPDB is not excluded and
  was allowed by the limiter.
\<close>

theorem lookups_only_after_both_checks:
  "(isExcludedIP g (clientIP r) \<longrightarrow>
      handler g r e = \<lparr>resp = StatusOK, after = g, trace = [], errlog = []\<rparr>)
   \<and> (\<not> isExcludedIP g (clientIP r) \<and> \<not> fst (Allow (rateLimiter g) (clientIP r) (clock e)) \<longrightarrow>
        resp (handler g r e) = StatusTooManyRequests \<and>
        trace (handler g r e) = [RateCheck (clientIP r)] \<and>
        db (after (handler g r e)) = db g)
   \<and> (\<not> isExcludedIP g (clientIP r) \<and> fst (Allow (rateLimiter g) (clientIP r) (clock e)) \<longrightarrow>
        (\<exists>evs. trace (handler g r e) = RateCheck (clientIP r) # StoreGet (clientIP r) # evs))
   \<and> ((\<exists>ev \<in> set (trace (handler g r e)). is_lookup ev) \<longrightarrow>
        \<not> isExcludedIP g (clientIP r) \<and> fst (Allow (rateLimiter g) (clientIP r) (clock e)))"
proof (intro conjI impI)
  assume "isExcludedIP g (clientIP r)"
  then show "handler g r e = \<lparr>resp = StatusOK, after = g, trace = [], errlog = []\<rparr>"
    by (rule handler_excluded)
next
  assume h: "\<not> isExcludedIP g (clientIP r) \<and> \<not> fst (Allow (rateLimiter g) (clientIP r) (clock e))"
  then show "resp (handler g r e) = StatusTooManyRequests"
    and "trace (handler g r e) = [RateCheck (clientIP r)]"
    and "db (after (handler g r e)) = db g"
    by (simp_all add: handler_limited)
next
  assume h: "\<not> isExcludedIP g (clientIP r) \<and> fst (Allow (rateLimiter g) (clientIP r) (clock e))"
  obtain evs where "snd (snd (getOrCreateIPInfo g (clientIP r) (RequestURI r) e))
      = StoreGet (clientIP r) # evs"
    using getOrCreateIPInfo_trace by blast
  with h show "\<exists>evs. trace (handler g r e) = RateCheck (clientIP r) # StoreGet (clientIP r) # evs"
    by (simp add: handler_passed)
next
  assume l: "\<exists>ev \<in> set (trace (handler g r e)). is_lookup ev"
  show "\<not> isExcludedIP g (clientIP r)"
  proof
    assume "isExcludedIP g (clientIP r)"
    then have "trace (handler g r e) = []" by (simp add: handler_excluded)
    with l show False by simp
  qed
  then show "fst (Allow (rateLimiter g) (clientIP r) (clock e))"
    using l by (cases "fst (Allow (rateLimiter g) (clientIP r) (clock e))")
      (simp_all add: handler_limited)
qed


theorem lookups_only_after_both_checks_witness:
  "handler gk0 \<lparr>clientIP = ''192.168.1.10'', RequestURI = ''/''\<rparr> env0
     = \<lparr>resp = StatusOK, after = gk0, trace = [], errlog = []\<rparr>
   \<and> resp (handler
        (gk0\<lparr>rateLimiter := snd (allow_seq (rateLimiter gk0)
            [(''203.0.113.9'', 0), (''203.0.113.9'', 0), (''203.0.113.9'', 0),
             (''203.0.113.9'', 0), (''203.0.113.9'', 0)])\<rparr>)
        \<lparr>clientIP = ''203.0.113.9'', RequestURI = ''/''\<rparr> env0) = StatusTooManyRequests
   \<and> trace (handler
        (gk0\<lparr>rateLimiter := snd (allow_seq (rateLimiter gk0)
            [(''203.0.113.9'', 0), (''203.0.113.9'', 0), (''203.0.113.9'', 0),
             (''203.0.113.9'', 0), (''203.0.113.9'', 0)])\<rparr>)
        \<lparr>clientIP = ''203.0.113.9'', RequestURI = ''/''\<rparr> env0) = [RateCheck ''203.0.113.9'']
   \<and> (\<exists>evs. trace (handler gk0 req8 env0)
          = RateCheck ''203.0.113.8'' # StoreGet ''203.0.113.8'' # evs)"
  using
    lookups_only_after_both_checks [where g = gk0
      and r = "\<lparr>clientIP = ''192.168.1.10'', RequestURI = ''/''\<rparr>" and e = env0]
    lookups_only_after_both_checks [where
      g = "gk0\<lparr>rateLimiter := snd (allow_seq (rateLimiter gk0)
            [(''203.0.113.9'', 0), (''203.0.113.9'', 0), (''203.0.113.9'', 0),
             (''203.0.113.9'', 0), (''203.0.113.9'', 0)])\<rparr>"
      and r = "\<lparr>clientIP = ''203.0.113.9'', RequestURI = ''/''\<rparr>" and e = env0]
    lookups_only_after_both_checks [where g = gk0 and r = req8 and e = env0]
  by (simp add: gk0_def env0_def req8_def NewGateKeeper_def NewIPRateLimiter_def isExcludedIP_def
      Allow_def Let_def Sub_def minDuration_def maxDuration_def int64_wrap_def Minute_def
      Second_def)

lemma filter_notify_MultiNotifier:
  "filter is_notify (MultiNotifier_Notify n i) = MultiNotifier_Notify n i"
  by (simp add: MultiNotifier_Notify_def filter_map o_def)

lemma filter_notify_none:
  "\<forall>ev \<in> set evs. \<not> is_notify ev \<Longrightarrow> filter is_notify evs = []"
  by (induction evs) simp_all

lemma getOrCreateIPInfo_no_notify:
  "filter is_notify (snd (snd (getOrCreateIPInfo g ip pth e))) = []"
proof -
  obtain evs where t: "snd (snd (getOrCreateIPInfo g ip pth e)) = StoreGet ip # evs"
    and n: "\<forall>ev \<in> set evs. \<not> is_notify ev"
    using getOrCreateIPInfo_trace by blast
  show ?thesis by (simp add: t filter_notify_none [OF n])
qed

lemma blockIPInUniFi_notifyErr:
  "blockIPInUniFi ks (e\<lparr>notifyErr := f\<rparr>) i d = blockIPInUniFi ks e i d"
  by (induction ks arbitrary: i d) simp_all

lemma createIPInfo_notifyErr:
  "createIPInfo g ip pth (e\<lparr>notifyErr := f\<rparr>) sc = createIPInfo g ip pth e sc"
  by (simp add: createIPInfo_def Let_def blockIPInUniFi_notifyErr)

lemma checked_notifyErr: "checked (e\<lparr>notifyErr := f\<rparr>) = checked e"
  by (simp add: checked_def)

lemma getOrCreateIPInfo_notifyErr:
  "getOrCreateIPInfo g ip pth (e\<lparr>notifyErr := f\<rparr>) = getOrCreateIPInfo g ip pth e"
  by (simp add: getOrCreateIPInfo_def createIPInfo_notifyErr checked_notifyErr
      split: option.splits)

lemma handler_resp_cases:
  "resp (handler g r e) =
     (if isExcludedIP g (clientIP r) then StatusOK
      else if \<not> fst (Allow (rateLimiter g) (clientIP r) (clock e)) then StatusTooManyRequests
      else if IsHighRisk (fst (getOrCreateIPInfo g (clientIP r) (RequestURI r) e)) then Tarpit
      else DropConnection)"
  by (simp add: handler_excluded handler_limited handler_passed)

text \<open>
  C9, as the claim states it, fails: a request resolved with score 10 is not high-risk, is
  dropped, and a notification for it is dispatched.
\<close>

theorem drop_notifies_counterexample:
  "\<not> IsHighRisk (fst (getOrCreateIPInfo gk0 (clientIP req8) (RequestURI req8) env0))
   \<and> resp (handler gk0 req8 env0) = DropConnection
   \<and> filter is_notify (trace (handler gk0 req8 env0))
       = [Notify 0 \<lparr>Address = ''203.0.113.8'', Score = 10, Country = ''NL'', Path = ''/login'',
                    PayloadPath = [], BlockedInFW = False, Timestamp = 5000\<rparr>]"
  by (simp add: gk0_def env0_def req8_def NewGateKeeper_def NewIPRateLimiter_def isExcludedIP_def
      handler_def getOrCreateIPInfo_def createIPInfo_def checked_def Get_def Set_def
      stored_db_def stored_row_def IsHighRisk_def ScoreThreshold_def MultiNotifier_Notify_def
      Allow_def Let_def)

text \<open>
  C9, amended. The notifications of a request are one per configured notifier, for the
  resolved record, exactly when the request passed the exclusion list and the limiter,
  that is when it ends in the tarpit or in a drop; a request answered 200 or 429 has
  none. Whether deliveries fail changes neither the response, nor the state, nor the
  calls; the failures only appear in the log.
\<close>

theorem notifications_for_resolved_requests:
  "filter is_notify (trace (handler g r e)) =
     (if resp (handler g r e) = Tarpit \<or> resp (handler g r e) = DropConnection
      then MultiNotifier_Notify (notifier g)
             (fst (getOrCreateIPInfo g (clientIP r) (RequestURI r) e))
      else [])
   \<and> (resp (handler g r e) = Tarpit \<or> resp (handler g r e) = DropConnection)
       = (\<not> isExcludedIP g (clientIP r) \<and> fst (Allow (rateLimiter g) (clientIP r) (clock e)))
   \<and> resp (handler g r (e\<lparr>notifyErr := f\<rparr>)) = resp (handler g r e)
   \<and> after (handler g r (e\<lparr>notifyErr := f\<rparr>)) = after (handler g r e)
   \<and> trace (handler g r (e\<lparr>notifyErr := f\<rparr>)) = trace (handler g r e)
   \<and> errlog (handler g r e) =
       (if resp (handler g r e) = Tarpit \<or> resp (handler g r e) = DropConnection
        then filter (notifyErr e) [0..<notifier g] else [])"
proof -
  consider (ex) "isExcludedIP g (clientIP r)"
    | (lim) "\<not> isExcludedIP g (clientIP r)" "\<not> fst (Allow (rateLimiter g) (clientIP r) (clock e))"
    | (pass) "\<not> isExcludedIP g (clientIP r)" "fst (Allow (rateLimiter g) (clientIP r) (clock e))"
    by blast
  then show ?thesis
  proof cases
    case ex
    then show ?thesis by (simp add: handler_excluded)
  next
    case lim
    then show ?thesis by (simp add: handler_limited)
  next
    case pass
    then show ?thesis
      by (simp add: handler_passed getOrCreateIPInfo_no_notify filter_notify_MultiNotifier
          getOrCreateIPInfo_notifyErr notification_log_def)
  qed
qed

theorem notifications_for_resolved_requests_witness:
  "filter is_notify (trace (handler gk0 req8 env0))
     = [Notify 0 \<lparr>Address = ''203.0.113.8'', Score = 10, Country = ''NL'', Path = ''/login'',
                  PayloadPath = [], BlockedInFW = False, Timestamp = 5000\<rparr>]
   \<and> filter is_notify (trace (handler gk0 \<lparr>clientIP = ''192.168.1.10'', RequestURI = ''/''\<rparr> env0))
     = []
   \<and> resp (handler gk0 req8 (env0\<lparr>notifyErr := (\<lambda>k. True)\<rparr>)) = DropConnection
   \<and> errlog (handler gk0 req8 (env0\<lparr>notifyErr := (\<lambda>k. True)\<rparr>)) = [0]"
  using
    notifications_for_resolved_requests [where g = gk0 and r = req8 and e = env0
      and f = "\<lambda>k. True"]
    notifications_for_resolved_requests [where g = gk0 and r = req8
      and e = "env0\<lparr>notifyErr := (\<lambda>k. True)\<rparr>" and f = "\<lambda>k. True"]
    notifications_for_resolved_requests [where g = gk0
      and r = "\<lparr>clientIP = ''192.168.1.10'', RequestURI = ''/''\<rparr>" and e = env0]
  by (simp add: gk0_def env0_def req8_def NewGateKeeper_def NewIPRateLimiter_def isExcludedIP_def
      handler_def getOrCreateIPInfo_def createIPInfo_def checked_def Get_def Set_def
      stored_db_def stored_row_def IsHighRisk_def ScoreThreshold_def MultiNotifier_Notify_def
      Allow_def Let_def)

lemma Get_hit:
  "ip_info d a = Some r \<Longrightarrow> now < timestamp r + ttl d \<Longrightarrow> \<exists>entry. Get d a now False = Some entry"
  by (simp add: Get_def)

lemma handler_other_row:
  "clientIP rq \<noteq> a \<Longrightarrow> ip_info (db (after (handler g rq e))) a = ip_info (db g) a"
  by (cases "isExcludedIP g (clientIP rq)";
      cases "fst (Allow (rateLimiter g) (clientIP rq) (clock e))")
     (simp_all add: handler_excluded handler_limited handler_passed getOrCreateIPInfo_other)

lemma handler_ttl: "ttl (db (after (handler g rq e))) = ttl (db g)"
  by (cases "isExcludedIP g (clientIP rq)";
      cases "fst (Allow (rateLimiter g) (clientIP rq) (clock e))")
     (simp_all add: handler_excluded handler_limited handler_passed getOrCreateIPInfo_ttl)

lemma handler_hit_db:
  assumes "ip_info (db g) (clientIP rq) = Some r" "\<not> getErr e"
    "getNow e < timestamp r + ttl (db g)"
  shows "db (after (handler g rq e)) = db g"
proof -
  obtain entry where "Get (db g) (clientIP rq) (getNow e) (getErr e) = Some entry"
    using Get_hit [OF assms(1,3)] assms(2) by auto
  then have "fst (snd (getOrCreateIPInfo g (clientIP rq) (RequestURI rq) e)) = db g"
    by (simp add: getOrCreateIPInfo_hit)
  then show ?thesis
    by (cases "isExcludedIP g (clientIP rq)";
        cases "fst (Allow (rateLimiter g) (clientIP rq) (clock e))")
       (simp_all add: handler_excluded handler_limited handler_passed)
qed

lemma serve_keeps_cached_row:
  "ip_info (db g) a = Some r \<Longrightarrow>
   \<forall>(rq, e) \<in> set rs. clientIP rq = a \<longrightarrow> \<not> getErr e \<and> getNow e < timestamp r + ttl (db g) \<Longrightarrow>
   ip_info (db (snd (serve g rs))) a = Some r"
proof (induction rs arbitrary: g)
  case Nil
  then show ?case by simp
next
  case (Cons x rs)
  obtain rq e where x: "x = (rq, e)" by (cases x)
  have row: "ip_info (db (after (handler g rq e))) a = Some r"
  proof (cases "clientIP rq = a")
    case True
    with Cons.prems x have "\<not> getErr e" "getNow e < timestamp r + ttl (db g)" by auto
    with True Cons.prems(1) show ?thesis by (simp add: handler_hit_db)
  next
    case False
    with Cons.prems(1) show ?thesis by (simp add: handler_other_row)
  qed
  have rest: "\<forall>(rq', e') \<in> set rs. clientIP rq' = a \<longrightarrow>
      \<not> getErr e' \<and> getNow e' < timestamp r + ttl (db (after (handler g rq e)))"
    using Cons.prems(2) by (simp add: handler_ttl)
  have "ip_info (db (snd (serve (after (handler g rq e)) rs))) a = Some r"
    using Cons.IH [OF row rest] .
  then show ?case by (simp add: x Let_def case_prod_beta)
qed

text \<open>
  C7, as the claim states it, fails: the row of 203.0.113.7 is blocked and older than the
  TTL; a request of that identity misses, is resolved anew with score 10, and the put
  writes \<open>blocked_in_fw = False\<close> over the row.
\<close>

theorem blocked_reset_counterexample:
  "map_option blocked_in_fw (ip_info (db gk0) ''203.0.113.7'') = Some True
   \<and> resp (handler gk0 req7 env0) = DropConnection
   \<and> map_option blocked_in_fw (ip_info (db (after (handler gk0 req7 env0))) ''203.0.113.7'')
       = Some False"
  by (simp add: gk0_def env0_def req7_def NewGateKeeper_def NewIPRateLimiter_def isExcludedIP_def
      handler_def getOrCreateIPInfo_def createIPInfo_def checked_def Get_def Set_def
      stored_db_def stored_row_def IsHighRisk_def ScoreThreshold_def MultiNotifier_Notify_def
      DefaultCacheTTL_def Allow_def Let_def)

text \<open>
  C7, amended. The blocked flag is kept while the record is cached: if the row of an
  identity is blocked, then after any sequence of requests, of any identities, in which
  every request of that identity finds the row younger than the TTL and reads it without
  error, the row is the same, so still blocked. And \<open>MarkBlocked\<close>, for any address,
  leaves a blocked row blocked.
\<close>

theorem blocked_kept_while_cached:
  "(ip_info (db g) a = Some r \<and> blocked_in_fw r \<and>
      (\<forall>(rq, e) \<in> set rs. clientIP rq = a \<longrightarrow>
          \<not> getErr e \<and> getNow e < timestamp r + ttl (db g)) \<longrightarrow>
      ip_info (db (snd (serve g rs))) a = Some r)
   \<and> (ip_info d a = Some r \<and> blocked_in_fw r \<longrightarrow>
        (\<exists>r'. ip_info (snd (MarkBlocked d ip now ex)) a = Some r' \<and> blocked_in_fw r'))"
proof (intro conjI impI)
  assume "ip_info (db g) a = Some r \<and> blocked_in_fw r \<and>
      (\<forall>(rq, e) \<in> set rs. clientIP rq = a \<longrightarrow>
          \<not> getErr e \<and> getNow e < timestamp r + ttl (db g))"
  then show "ip_info (db (snd (serve g rs))) a = Some r"
    using serve_keeps_cached_row by blast
next
  assume "ip_info d a = Some r \<and> blocked_in_fw r"
  then show "\<exists>r'. ip_info (snd (MarkBlocked d ip now ex)) a = Some r' \<and> blocked_in_fw r'"
    by (simp add: MarkBlocked_row)
qed

theorem blocked_kept_while_cached_witness:
  "ip_info (db (snd (serve gk0
       [(req7, env0\<lparr>getNow := 2000\<rparr>), (req8, env0), (req7, env0\<lparr>getNow := 4599\<rparr>)])))
     ''203.0.113.7'' = Some stored_row
   \<and> blocked_in_fw stored_row
   \<and> map_option blocked_in_fw (ip_info (snd (MarkBlocked stored_db ''203.0.113.7'' 2000 False))
        ''203.0.113.7'') = Some True"
  using
    blocked_kept_while_cached [where g = gk0 and a = "''203.0.113.7''" and r = stored_row
      and rs = "[(req7, env0\<lparr>getNow := 2000\<rparr>), (req8, env0), (req7, env0\<lparr>getNow := 4599\<rparr>)]"
      and d = stored_db and ip = "''203.0.113.7''" and now = 2000 and ex = False]
  by (auto simp add: gk0_def env0_def req7_def req8_def NewGateKeeper_def stored_db_def
      stored_row_def DefaultCacheTTL_def)


section \<open>Resolutions in flight together\<close>

lemmas ev_defs = two_in_flight_def first_sighting_def env429_def env0_def gk0_def
  NewGateKeeper_def NewIPRateLimiter_def stored_db_def stored_row_def DefaultCacheTTL_def
  step_def thread_step_def Get_def Set_def createIPInfo_def checked_def IsHighRisk_def
  ScoreThreshold_def Let_def

lemma createIPInfo_no_check:
  "filter (\<lambda>ev. ev = ExternalCheck ip') (snd (snd (createIPInfo g ip pth e sc))) = []"
proof -
  have "\<forall>ev \<in> set (snd (snd (createIPInfo g ip pth e sc))). ev \<noteq> ExternalCheck ip'"
    using createIPInfo_no_lookup by fastforce
  then show ?thesis by (simp add: filter_empty_conv)
qed

lemma thread_alone:
  assumes "t_pc t = Start"
  shows "(case thread_step g c t of (g1, c1, t1) \<Rightarrow>
          case thread_step g1 c1 t1 of (g2, c2, t2) \<Rightarrow> thread_step g2 c2 t2)
         = (g\<lparr>db := fst (snd (getOrCreateIPInfo g (t_ip t) (t_path t) (t_env t)))\<rparr>,
            c @ map (\<lambda>ev. t_ip t)
                  (filter (\<lambda>ev. ev = ExternalCheck (t_ip t))
                     (snd (snd (getOrCreateIPInfo g (t_ip t) (t_path t) (t_env t))))),
            t\<lparr>t_pc := Done (fst (getOrCreateIPInfo g (t_ip t) (t_path t) (t_env t)))\<rparr>)"
proof (cases "Get (db g) (t_ip t) (getNow (t_env t)) (getErr (t_env t))")
  case None
  then show ?thesis
    using assms
    by (simp add: thread_step_def getOrCreateIPInfo_def case_prod_beta createIPInfo_no_check)
next
  case (Some entry)
  then show ?thesis
    using assms by (simp add: thread_step_def getOrCreateIPInfo_def)
qed

text \<open>
  The three steps of a thread that runs alone are \<open>getOrCreateIPInfo\<close> (lemma
  \<open>thread_alone\<close>), and two resolutions of one identity made one after the other call
  AbuseIPDB once, the second returning the record the first stored.
\<close>

lemma one_lookup_in_turn:
  "s_calls (run two_in_flight [0, 0, 0, 1, 1, 1]) = [''203.0.113.8'']
   \<and> map t_pc (s_threads (run two_in_flight [0, 0, 0, 1, 1, 1]))
      = [Done \<lparr>Address = ''203.0.113.8'', Score = 10, Country = ''NL'', Path = ''/login'',
                PayloadPath = [], BlockedInFW = False, Timestamp = 5000\<rparr>,
         Done \<lparr>Address = ''203.0.113.8'', Score = 10, Country = ''NL'', Path = ''/login'',
                PayloadPath = [], BlockedInFW = False, Timestamp = 5000\<rparr>]"
  by (simp add: ev_defs)

lemma IPQueue_Get_same:
  "fst (IPQueue_Get (snd (IPQueue_Get q key)) key) = fst (IPQueue_Get q key)"
  by (simp add: IPQueue_Get_def split: option.splits)

text \<open>
  C5. Two first requests of 203.0.113.8 whose steps alternate: both miss in \<open>Get\<close>
  before either has stored its record, both call AbuseIPDB, and since the second call is
  refused the two callers end with different records (score 10 from NL, and score 0 from
  Unknown). Resolution is not single-flight.
\<close>

theorem two_lookups_in_flight:
  "s_calls (run two_in_flight [0, 1, 0, 1, 0, 1]) = [''203.0.113.8'', ''203.0.113.8'']
   \<and> map t_pc (s_threads (run two_in_flight [0, 1, 0, 1, 0, 1]))
      = [Done \<lparr>Address = ''203.0.113.8'', Score = 10, Country = ''NL'', Path = ''/login'',
                PayloadPath = [], BlockedInFW = False, Timestamp = 5000\<rparr>,
         Done \<lparr>Address = ''203.0.113.8'', Score = 0, Country = ''Unknown'', Path = ''/login'',
                PayloadPath = [], BlockedInFW = False, Timestamp = 5000\<rparr>]"
  by (simp add: ev_defs)

end
